theory Spec2Isabelle
  imports Complex_Main
begin

section \<open>Python values and exceptions\<close>

text \<open>
  A webhook payload is whatever \<open>flask.request.json\<close> (or the FastAPI body) delivers: a
  parsed JSON document. Objects are Python dicts with string keys, kept here as association
  lists read with \<open>map_of\<close>.
\<close>

datatype json =
    JNull
  | JBool bool
  | JInt int
  | JFloat rat
  | JStr string
  | JList "json list"
  | JDict "(string \<times> json) list"

text \<open>
  The exceptions the code raises, catches or tells apart. \<open>FlowResponseError\<close> and its
  subclass \<open>FlowTokenNoLongerValid\<close> are imported from \<open>pywa.types.flows\<close>; every instance
  carries a \<open>status_code\<close>, a \<open>FlowTokenNoLongerValid\<close> also an \<open>error_message\<close>, any
  other one is told apart by its class name only. \<open>NonException\<close> stands for the raisable
  objects that are not instances of \<open>Exception\<close> (\<open>SystemExit\<close>, \<open>KeyboardInterrupt\<close>),
  which no \<open>except Exception\<close> clause catches.
\<close>

datatype flow_error =
    FlowTokenNoLongerValid (error_message: string) (token_status_code: int)
  | OtherFlowResponseError (class_name: string) (other_status_code: int)

datatype py_exception =
    KeyError
  | IndexError
  | TypeError
  | ValueError
  | AttributeError
  | StopHandling
  | FlowResponseError flow_error
  | OtherException string
  | NonException string

text \<open>\<open>isinstance(e, Exception)\<close>.\<close>

fun is_Exception :: "py_exception \<Rightarrow> bool" where
  "is_Exception (NonException _) = False"
| "is_Exception _ = True"

text \<open>
  \<open>obj[key]\<close> for a string key: a dict looks the key up (\<open>KeyError\<close> when absent); a list
  or a string wants an integer index and every other value is not subscriptable
  (\<open>TypeError\<close>).
\<close>

fun getitem_str :: "json \<Rightarrow> string \<Rightarrow> py_exception + json" where
  "getitem_str (JDict kvs) key = (case map_of kvs key of None \<Rightarrow> Inl KeyError | Some v \<Rightarrow> Inr v)"
| "getitem_str _ key = Inl TypeError"

text \<open>
  \<open>obj[0]\<close>: the first element of a list or the first character of a string
  (\<open>IndexError\<close> when empty); on a dict the key \<open>0\<close> is never present, its keys being
  strings (\<open>KeyError\<close>); every other value is not subscriptable (\<open>TypeError\<close>).
\<close>

fun getitem_0 :: "json \<Rightarrow> py_exception + json" where
  "getitem_0 (JList []) = Inl IndexError"
| "getitem_0 (JList (x # xs)) = Inr x"
| "getitem_0 (JStr []) = Inl IndexError"
| "getitem_0 (JStr (c # cs)) = Inr (JStr [c])"
| "getitem_0 (JDict kvs) = Inl KeyError"
| "getitem_0 _ = Inl TypeError"

text \<open>\<open>sub in s\<close> for two strings: \<open>sub\<close> occurs in \<open>s\<close> as a contiguous run.\<close>

fun str_contains :: "string \<Rightarrow> string \<Rightarrow> bool" where
  "str_contains [] sub = (sub = [])"
| "str_contains (c # cs) sub = (take (length sub) (c # cs) = sub \<or> str_contains cs sub)"

text \<open>
  \<open>key in obj\<close> for a string key: key membership on a dict, element membership on a list,
  substring test on a string; every other value is not iterable (\<open>TypeError\<close>).
\<close>

fun py_in :: "string \<Rightarrow> json \<Rightarrow> py_exception + bool" where
  "py_in key (JDict kvs) = Inr (map_of kvs key \<noteq> None)"
| "py_in key (JList xs) = Inr (JStr key \<in> set xs)"
| "py_in key (JStr s) = Inr (str_contains s key)"
| "py_in key _ = Inl TypeError"

text \<open>Lists and dicts are unhashable; they cannot be looked up in a dict.\<close>

fun hashable :: "json \<Rightarrow> bool" where
  "hashable (JList _) = False"
| "hashable (JDict _) = False"
| "hashable _ = True"

text \<open>
  \<open>table.get(key)\<close> on a dict whose keys are strings: \<open>TypeError\<close> for an unhashable key,
  \<open>None\<close> for a key that is not a string or is absent.
\<close>

fun dict_get :: "(string \<rightharpoonup> 'v) \<Rightarrow> json \<Rightarrow> py_exception + 'v option" where
  "dict_get table (JStr s) = Inr (table s)"
| "dict_get table (JList _) = Inl TypeError"
| "dict_get table (JDict _) = Inl TypeError"
| "dict_get table _ = Inr None"

section \<open>Update classifier (\<open>Server._get_handler\<close>)\<close>

text \<open>
  The handler classes the server module imports from \<open>pywa.handlers\<close>; \<open>OtherHandler\<close>
  stands for any further subclass of \<open>Handler\<close> that the field table may name.
\<close>

datatype handler_type =
    MessageHandler
  | CallbackButtonHandler
  | CallbackSelectionHandler
  | FlowCompletionHandler
  | MessageStatusHandler
  | ChatOpenedHandler
  | RawUpdateHandler
  | OtherHandler string

text \<open>
  Modelled from the spec: the enumeration \<open>MessageType\<close> of \<open>pywa.types\<close> is not among the
  sources. It is a string enumeration (a member equals, and hashes as, its string value);
  the spec names the message types \<open>interactive\<close>, the legacy \<open>button\<close> type and the
  chat-opened type.
\<close>

definition MessageType_INTERACTIVE :: string where
  "MessageType_INTERACTIVE = ''interactive''"

definition MessageType_BUTTON :: string where
  "MessageType_BUTTON = ''button''"

definition MessageType_REQUEST_WELCOME :: string where
  "MessageType_REQUEST_WELCOME = ''request_welcome''"

definition MESSAGE_TYPES :: "string \<rightharpoonup> handler_type" where
  "MESSAGE_TYPES =
     [MessageType_BUTTON \<mapsto> CallbackButtonHandler,
      MessageType_REQUEST_WELCOME \<mapsto> ChatOpenedHandler]"

definition INTERACTIVE_TYPES :: "string \<rightharpoonup> handler_type" where
  "INTERACTIVE_TYPES =
     [''button_reply'' \<mapsto> CallbackButtonHandler,
      ''list_reply'' \<mapsto> CallbackSelectionHandler,
      ''nfm_reply'' \<mapsto> FlowCompletionHandler]"

text \<open>
  What the classifier reads of the client: the \<open>filter_updates\<close> flag, the \<open>phone_id\<close>
  and the table \<open>Handler._fields_to_subclasses()\<close> (field name to handler class), which
  \<open>pywa.handlers\<close> builds and which is a parameter here.
\<close>

record classifier_config =
  filter_updates :: bool
  phone_id :: string
  fields_to_subclasses :: "string \<rightharpoonup> handler_type"

text \<open>
  Evaluation in sequence: an exception raised by the first step is the result, otherwise
  the second step runs on the first one's value.
\<close>

definition and_then :: "py_exception + 'a \<Rightarrow> ('a \<Rightarrow> py_exception + 'b) \<Rightarrow> py_exception + 'b" where
  "and_then m f = (case m of Inl e \<Rightarrow> Inl e | Inr x \<Rightarrow> f x)"

text \<open>\<open>update["entry"][0]["changes"][0]\<close>.\<close>

definition first_change :: "json \<Rightarrow> py_exception + json" where
  "first_change update =
     and_then (getitem_str update ''entry'') (\<lambda>entries.
     and_then (getitem_0 entries) (\<lambda>entry.
     and_then (getitem_str entry ''changes'') (\<lambda>changes.
     getitem_0 changes)))"

text \<open>
  \<^verbatim>\<open>
  try:
      field = update["entry"][0]["changes"][0]["field"]
      value = update["entry"][0]["changes"][0]["value"]
  except (KeyError, IndexError, TypeError):
      raise ValueError(f"Invalid update: {update}")
  \<close>
\<close>

definition field_and_value :: "json \<Rightarrow> py_exception + (json \<times> json)" where
  "field_and_value update =
     (case and_then (first_change update) (\<lambda>change.
           and_then (getitem_str change ''field'') (\<lambda>field.
           and_then (getitem_str change ''value'') (\<lambda>val.
           Inr (field, val))))
      of Inl e \<Rightarrow> (if e \<in> {KeyError, IndexError, TypeError} then Inl ValueError else Inl e)
       | Inr fv \<Rightarrow> Inr fv)"

text \<open>
  \<open>not self.filter_updates or (value["metadata"]["phone_number_id"] == self.phone_id)\<close>;
  the subscripts are evaluated only when \<open>filter_updates\<close> is on.
\<close>

definition accepts_update :: "'a classifier_config_scheme \<Rightarrow> json \<Rightarrow> py_exception + bool" where
  "accepts_update self val =
     (if \<not> filter_updates self then Inr True
      else and_then (getitem_str val ''metadata'') (\<lambda>metadata.
           and_then (getitem_str metadata ''phone_number_id'') (\<lambda>pid.
           Inr (pid = JStr (phone_id self)))))"

text \<open>\<open>_MESSAGE_TYPES.get(msg_type, MessageHandler)\<close>.\<close>

definition message_type_handler :: "json \<Rightarrow> py_exception + handler_type" where
  "message_type_handler msg_type =
     and_then (dict_get MESSAGE_TYPES msg_type) (\<lambda>found.
     Inr (case found of None \<Rightarrow> MessageHandler | Some handler \<Rightarrow> handler))"

text \<open>
  The branch taken when \<open>"messages" in value\<close>:
  \<^verbatim>\<open>
  msg_type = value["messages"][0]["type"]
  if msg_type == MessageType.INTERACTIVE:
      try:
          interactive_type = value["messages"][0]["interactive"]["type"]
      except KeyError:
          return MessageHandler
      if (handler := _INTERACTIVE_TYPES.get(interactive_type)) is not None:
          return handler
  return _MESSAGE_TYPES.get(msg_type, MessageHandler)
  \<close>
\<close>

definition message_handler_type :: "json \<Rightarrow> py_exception + handler_type" where
  "message_handler_type val =
     and_then (getitem_str val ''messages'') (\<lambda>messages.
     and_then (getitem_0 messages) (\<lambda>msg.
     and_then (getitem_str msg ''type'') (\<lambda>msg_type.
     if msg_type = JStr MessageType_INTERACTIVE then
       (case and_then (getitem_str msg ''interactive'') (\<lambda>interactive.
             getitem_str interactive ''type'')
        of Inl e \<Rightarrow> (if e = KeyError then Inr MessageHandler else Inl e)
         | Inr interactive_type \<Rightarrow>
             and_then (dict_get INTERACTIVE_TYPES interactive_type) (\<lambda>found.
             case found of Some handler \<Rightarrow> Inr handler
                         | None \<Rightarrow> message_type_handler msg_type))
     else message_type_handler msg_type)))"

text \<open>
  \<open>_get_handler\<close>: \<open>Inl\<close> is the exception it raises, \<open>Inr None\<close> the result \<open>None\<close>,
  \<open>Inr (Some h)\<close> the handler class \<open>h\<close>.
\<close>

definition get_handler :: "'a classifier_config_scheme \<Rightarrow> json \<Rightarrow> py_exception + handler_type option" where
  "get_handler self update =
     and_then (field_and_value update) (\<lambda>(field, val).
     if field = JStr ''messages'' then
       and_then (accepts_update self val) (\<lambda>accepted.
       if accepted then
         and_then (py_in ''messages'' val) (\<lambda>has_messages.
         if has_messages then
           and_then (message_handler_type val) (\<lambda>handler. Inr (Some handler))
         else
           and_then (py_in ''statuses'' val) (\<lambda>has_statuses.
           if has_statuses then Inr (Some MessageStatusHandler) else Inr None))
       else Inr None)
     else dict_get (fields_to_subclasses self) field)"

section \<open>Dispatch engine (\<open>Server._call_handlers\<close>)\<close>

text \<open>
  A handler is called either with the update its category's constructor built or, for a
  raw-update handler, with the raw notification.
\<close>

datatype 'u update_arg = Constructed 'u | Raw json

text \<open>
  A registered handler: the \<open>__name__\<close> of its callback, which the log line of the
  \<open>except\<close> clause reads (\<open>None\<close> for a callable without that attribute, a
  \<open>functools.partial\<close> object say), and what \<open>handler.handle(self, update)\<close> does, namely
  change the state of the world and either return (\<open>None\<close>) or raise (\<open>Some e\<close>).
\<close>

record ('u, 's) handler =
  callback_name :: "string option"
  handle :: "'u update_arg \<Rightarrow> 's \<Rightarrow> py_exception option \<times> 's"

text \<open>One entry of the journal of calls: who was called, with what, and how the call ended.\<close>

datatype 'u call =
  Call (call_name: "string option") (call_arg: "'u update_arg") (call_outcome: "py_exception option")

text \<open>
  Modelled from the spec: the registry \<open>self._handlers\<close> is set up by the client class,
  which is not among the sources; looking a category up gives its handlers in registration
  order and the empty sequence, never an error, for a category with none. The constructor
  \<open>handler_type._update_constructor\<close> belongs to \<open>pywa.handlers\<close> and is a parameter: it
  builds the typed update or raises.
\<close>

record ('u, 's) client = classifier_config +
  handlers :: "handler_type \<Rightarrow> ('u, 's) handler list"
  update_constructor :: "handler_type \<Rightarrow> json \<Rightarrow> py_exception + 'u"

text \<open>
  The loop over the handlers of one category, which the source writes twice with the same
  body (once for the classified category, once for \<open>RawUpdateHandler\<close>):
  \<^verbatim>\<open>
  for handler in self._handlers[handler_type]:
      try:
          handler.handle(self, constructed_update)
      except Exception as e:
          if isinstance(e, StopHandling):
              break
          _logger.exception(
              "An error occurred while %s was handling an update",
              handler.callback.__name__,
          )
  \<close>
  What the loop does once a call has ended: go on with the next handler, leave the loop
  (\<open>break\<close>), or let an exception leave the loop. An exception that is not an
  \<open>Exception\<close> is not caught; the stop-propagation signal breaks; for any other error the
  \<open>except\<close> clause reads \<open>handler.callback.__name__\<close> for its log line, which raises
  \<open>AttributeError\<close> when the callback has no such attribute.
\<close>

datatype loop_action = Continue | Break | Leave py_exception

fun after_call :: "('u, 's) handler \<Rightarrow> py_exception option \<Rightarrow> loop_action" where
  "after_call h None = Continue"
| "after_call h (Some e) =
     (if \<not> is_Exception e then Leave e
      else if e = StopHandling then Break
      else (case callback_name h of None \<Rightarrow> Leave AttributeError | Some name \<Rightarrow> Continue))"

text \<open>
  The result of the loop is the journal of the calls made, the state they leave and the
  exception that left the loop, if any.
\<close>

fun run_handlers :: "('u, 's) handler list \<Rightarrow> 'u update_arg \<Rightarrow> 's \<Rightarrow> 'u call list \<times> 's \<times> py_exception option" where
  "run_handlers [] arg s = ([], s, None)"
| "run_handlers (h # hs) arg s =
     (case handle h arg s of
        (outcome, s') \<Rightarrow>
          (case after_call h outcome of
             Continue \<Rightarrow>
               (case run_handlers hs arg s' of
                  (cs, s'', escaped) \<Rightarrow> (Call (callback_name h) arg outcome # cs, s'', escaped))
           | Break \<Rightarrow> ([Call (callback_name h) arg outcome], s', None)
           | Leave e \<Rightarrow> ([Call (callback_name h) arg outcome], s', Some e)))"

text \<open>
  The state after the first \<open>i\<close> handlers of a list have been called in turn with the same
  argument.
\<close>

definition state_after :: "('u, 's) handler list \<Rightarrow> 'u update_arg \<Rightarrow> 's \<Rightarrow> nat \<Rightarrow> 's" where
  "state_after hs arg s i = fold (\<lambda>h st. snd (handle h arg st)) (take i hs) s"

text \<open>
  The block guarded by \<open>if handler_type is not None\<close>: construct the update, run the
  category's handlers, and catch every \<open>Exception\<close> that leaves either (logged as a failed
  construction), the \<open>AttributeError\<close> of a handler's log line included.
\<close>

definition run_category :: "('u, 's, 'a) client_scheme \<Rightarrow> handler_type option \<Rightarrow> json \<Rightarrow> 's \<Rightarrow> 'u call list \<times> 's \<times> py_exception option" where
  "run_category self handler_type update s =
     (case handler_type of
        None \<Rightarrow> ([], s, None)
      | Some ht \<Rightarrow>
          (case update_constructor self ht update of
             Inl e \<Rightarrow> ([], s, if is_Exception e then None else Some e)
           | Inr constructed_update \<Rightarrow>
               (case run_handlers (handlers self ht) (Constructed constructed_update) s of
                  (cs, s', escaped) \<Rightarrow>
                    (cs, s', case escaped of None \<Rightarrow> None
                                           | Some e \<Rightarrow> if is_Exception e then None else Some e))))"

text \<open>
  \<open>_call_handlers\<close>: classify; on \<open>ValueError\<close>, \<open>KeyError\<close>, \<open>TypeError\<close> or \<open>IndexError\<close>
  log and return; otherwise run the category block and then the raw-update handlers on the
  raw notification. The result is the journal of all handler calls, the final state, and
  the exception that leaves \<open>_call_handlers\<close>, if any.
\<close>

definition call_handlers :: "('u, 's, 'a) client_scheme \<Rightarrow> json \<Rightarrow> 's \<Rightarrow> 'u call list \<times> 's \<times> py_exception option" where
  "call_handlers self update s =
     (case get_handler self update of
        Inl e \<Rightarrow>
          (if e \<in> {ValueError, KeyError, TypeError, IndexError} then ([], s, None)
           else ([], s, Some e))
      | Inr handler_type \<Rightarrow>
          (case run_category self handler_type update s of
             (cs, s', Some e) \<Rightarrow> (cs, s', Some e)
           | (cs, s', None) \<Rightarrow>
               (case run_handlers (handlers self RawUpdateHandler) (Raw update) s' of
                  (rs, s'', escaped) \<Rightarrow> (cs @ rs, s'', escaped))))"

text \<open>
  What the spec asks of one loop, in its words: the handlers run in registration order (the
  \<open>i\<close>-th call is the call of the \<open>i\<close>-th registered handler, in the state the calls
  before it left, the first handler being called whenever there is one); a handler that
  raises the stop-propagation signal prevents the handlers registered after it from running;
  a handler that returns or raises anything else does not.
\<close>

definition runs_isolated :: "('u, 's) handler list \<Rightarrow> 'u update_arg \<Rightarrow> 's \<Rightarrow> 'u call list \<Rightarrow> bool" where
  "runs_isolated hs arg s cs \<longleftrightarrow>
     length cs \<le> length hs \<and>
     (hs \<noteq> [] \<longrightarrow> cs \<noteq> []) \<and>
     (\<forall>i<length cs.
        cs ! i = Call (callback_name (hs ! i)) arg (fst (handle (hs ! i) arg (state_after hs arg s i)))) \<and>
     (\<forall>i<length cs. call_outcome (cs ! i) = Some StopHandling \<longrightarrow> Suc i = length cs) \<and>
     (\<forall>i<length cs. call_outcome (cs ! i) \<noteq> Some StopHandling \<and> Suc i < length hs \<longrightarrow> Suc i < length cs)"

section \<open>Verification handshake (\<open>challenge_handler\<close> in \<open>Server.__init__\<close>)\<close>

text \<open>
  \<^verbatim>\<open>
  def challenge_handler(vt: str, ch: str) -> tuple[str, int]:
      if vt == verify_token:
          return ch, 200
      return "Error, invalid verification token", 403
  \<close>
  The Flask route passes \<open>flask.request.args.get(...)\<close>, which is \<open>None\<close> when the query
  parameter is absent, so both arguments are optional strings; the configured
  \<open>verify_token\<close> is a string (\<open>__init__\<close> raises \<open>ValueError\<close> when it is empty or
  \<open>None\<close>, before the closure is defined).
\<close>

definition challenge_handler :: "string \<Rightarrow> string option \<Rightarrow> string option \<Rightarrow> string option \<times> int" where
  "challenge_handler verify_token vt ch =
     (if vt = Some verify_token then (ch, 200)
      else (Some ''Error, invalid verification token'', 403))"

section \<open>Encrypted exchange (\<open>flow_request_handler\<close> in \<open>Server._register_flow_endpoint_callback\<close>)\<close>

text \<open>
  Modelled from the spec: \<open>FlowRequest\<close> and \<open>FlowResponse\<close> belong to \<open>pywa.types\<close>,
  which is not among the sources. Of the typed request the handler reads the \<open>version\<close>
  and whether it reports an existing error condition (\<open>has_error\<close>); a typed response is
  known by the mapping its \<open>to_dict()\<close> gives.
\<close>

record flow_request =
  version :: string
  has_error :: bool

text \<open>
  What the application callback may hand back: a \<open>FlowResponse\<close> (kept as its
  \<open>to_dict()\<close>), a dict, an instance of \<open>FlowResponseError\<close>, or anything else (\<open>None\<close>,
  say; kept as the name of its type).
\<close>

datatype callback_return =
    ReturnedFlowResponse json
  | ReturnedDict "(string \<times> json) list"
  | ReturnedError flow_error
  | ReturnedOther string

text \<open>
  Modelled from the spec: the class attribute \<open>FlowRequestCannotBeDecrypted.status_code\<close>
  of \<open>pywa.types.flows\<close>, the fixed status code of a failed decryption.
\<close>

definition FlowRequestCannotBeDecrypted_status_code :: int where
  "FlowRequestCannotBeDecrypted_status_code = 421"

text \<open>
  What the closure \<open>flow_request_handler\<close> captures. The decryptor, the encryptor and
  \<open>FlowRequest.from_dict\<close> are parameters: the decryptor gives the decrypted request, the
  session key and the initialisation vector, or raises; the encryptor maps a reply mapping,
  the key and the vector to the response body; \<open>from_dict\<close> builds the typed request from
  the decrypted data and the raw payload, or raises. The callback changes the state of the
  world and returns a value or raises; \<open>callback_dunder_name\<close> is its \<open>__name__\<close>, which
  the log line of the last \<open>except\<close> clause reads (\<open>None\<close> for a callable without that
  attribute).
\<close>

record ('k, 'iv, 'm, 's) flow_endpoint =
  private_key :: string
  private_key_password :: "string option"
  request_decryptor :: "json \<Rightarrow> json \<Rightarrow> json \<Rightarrow> string \<Rightarrow> string option \<Rightarrow> py_exception + (json \<times> 'k \<times> 'iv)"
  response_encryptor :: "json \<Rightarrow> 'k \<Rightarrow> 'iv \<Rightarrow> string"
  from_dict :: "json \<Rightarrow> json \<Rightarrow> py_exception + 'm flow_request_scheme"
  callback :: "'m flow_request_scheme \<Rightarrow> 's \<Rightarrow> (py_exception + callback_return) \<times> 's"
  callback_dunder_name :: "string option"
  acknowledge_errors :: bool
  handle_health_check :: bool

text \<open>
  The body of the first \<open>try\<close>:
  \<^verbatim>\<open>
  decrypted_request, aes_key, iv = request_decryptor(
      payload["encrypted_flow_data"], payload["encrypted_aes_key"],
      payload["initial_vector"], private_key, private_key_password)
  \<close>
\<close>

definition decrypt_request :: "('k, 'iv, 'm, 's) flow_endpoint \<Rightarrow> json \<Rightarrow> py_exception + (json \<times> 'k \<times> 'iv)" where
  "decrypt_request ep payload =
     and_then (getitem_str payload ''encrypted_flow_data'') (\<lambda>encrypted_flow_data.
     and_then (getitem_str payload ''encrypted_aes_key'') (\<lambda>encrypted_aes_key.
     and_then (getitem_str payload ''initial_vector'') (\<lambda>initial_vector.
     request_decryptor ep encrypted_flow_data encrypted_aes_key initial_vector
       (private_key ep) (private_key_password ep))))"

text \<open>\<open>handle_health_check and decrypted_request["action"] == "ping"\<close>.\<close>

definition is_health_check :: "('k, 'iv, 'm, 's) flow_endpoint \<Rightarrow> json \<Rightarrow> py_exception + bool" where
  "is_health_check ep decrypted_request =
     (if handle_health_check ep
      then and_then (getitem_str decrypted_request ''action'') (\<lambda>action. Inr (action = JStr ''ping''))
      else Inr False)"

text \<open>
  \<open>if isinstance(response, FlowResponseError): raise response\<close>, inside the \<open>try\<close> around
  the call of the callback.
\<close>

fun raise_returned_error :: "py_exception + callback_return \<Rightarrow> py_exception + callback_return" where
  "raise_returned_error (Inr (ReturnedError err)) = Inl (FlowResponseError err)"
| "raise_returned_error outcome = outcome"

text \<open>
  The \<open>except\<close> clauses of that \<open>try\<close>, in their order: \<open>FlowTokenNoLongerValid\<close>,
  \<open>FlowResponseError\<close>, \<open>Exception\<close>; anything else keeps propagating. The last clause
  logs \<open>callback.__name__\<close> before it returns, which raises \<open>AttributeError\<close> when the
  callback has no such attribute.
\<close>

fun callback_error_response :: "('k, 'iv, 'm, 's) flow_endpoint \<Rightarrow> 'k \<Rightarrow> 'iv \<Rightarrow> py_exception \<Rightarrow> py_exception + (string \<times> int)" where
  "callback_error_response ep aes_key iv (FlowResponseError (FlowTokenNoLongerValid msg code)) =
     Inr (response_encryptor ep (JDict [(''error_msg'', JStr msg)]) aes_key iv, code)"
| "callback_error_response ep aes_key iv (FlowResponseError (OtherFlowResponseError name code)) =
     Inr (name, code)"
| "callback_error_response ep aes_key iv e =
     (if is_Exception e then
        (case callback_dunder_name ep of
           None \<Rightarrow> Inl AttributeError
         | Some name \<Rightarrow> Inr (''An error occurred'', 500))
      else Inl e)"

text \<open>
  What follows the \<open>try\<close>: the acknowledgement of a reported error, the type check of the
  callback's value (\<open>TypeError\<close>), the encrypted reply.
\<close>

definition encrypted_reply :: "('k, 'iv, 'm, 's) flow_endpoint \<Rightarrow> 'm flow_request_scheme \<Rightarrow> callback_return \<Rightarrow> 'k \<Rightarrow> 'iv \<Rightarrow> py_exception + (string \<times> int)" where
  "encrypted_reply ep request response aes_key iv =
     (if acknowledge_errors ep \<and> has_error request then
        Inr (response_encryptor ep
               (JDict [(''version'', JStr (version request)),
                       (''data'', JDict [(''acknowledged'', JBool True)])])
               aes_key iv, 200)
      else
        (case response of
           ReturnedFlowResponse to_dict \<Rightarrow> Inr (response_encryptor ep to_dict aes_key iv, 200)
         | ReturnedDict kvs \<Rightarrow> Inr (response_encryptor ep (JDict kvs) aes_key iv, 200)
         | _ \<Rightarrow> Inl TypeError))"

text \<open>
  \<open>flow_request_handler\<close>: the response (body and status code) or the exception raised,
  the requests the application callback was called with, and the state afterwards.
\<close>

definition flow_request_handler :: "('k, 'iv, 'm, 's) flow_endpoint \<Rightarrow> json \<Rightarrow> 's \<Rightarrow> (py_exception + (string \<times> int)) \<times> 'm flow_request_scheme list \<times> 's" where
  "flow_request_handler ep payload s =
     (case decrypt_request ep payload of
        Inl e \<Rightarrow>
          (if is_Exception e
           then Inr (''Decryption failed'', FlowRequestCannotBeDecrypted_status_code)
           else Inl e, [], s)
      | Inr (decrypted_request, aes_key, iv) \<Rightarrow>
          (case is_health_check ep decrypted_request of
             Inl e \<Rightarrow> (Inl e, [], s)
           | Inr ping \<Rightarrow>
               if ping then
                 (and_then (getitem_str decrypted_request ''version'') (\<lambda>v.
                    Inr (response_encryptor ep
                           (JDict [(''version'', v), (''data'', JDict [(''status'', JStr ''active'')])])
                           aes_key iv, 200)),
                  [], s)
               else
                 (case from_dict ep decrypted_request payload of
                    Inl e \<Rightarrow>
                      (if is_Exception e then Inr (''Failed to construct FlowRequest'', 500) else Inl e,
                       [], s)
                  | Inr request \<Rightarrow>
                      (case callback ep request s of
                         (outcome, s') \<Rightarrow>
                           (case raise_returned_error outcome of
                              Inl e \<Rightarrow> (callback_error_response ep aes_key iv e, [request], s')
                            | Inr response \<Rightarrow>
                                (encrypted_reply ep request response aes_key iv, [request], s'))))))"

section \<open>Example inputs\<close>

text \<open>A notification with one entry holding one change.\<close>

definition notification :: "json \<Rightarrow> json \<Rightarrow> json" where
  "notification field val =
     JDict [(''entry'', JList [JDict [(''changes'', JList [JDict [(''field'', field), (''value'', val)]])]])]"

definition message_value :: "string \<Rightarrow> json \<Rightarrow> json" where
  "message_value recipient msg =
     JDict [(''metadata'', JDict [(''phone_number_id'', JStr recipient)]), (''messages'', JList [msg])]"

definition text_message :: json where
  "text_message = notification (JStr ''messages'')
     (message_value ''247666181773936'' (JDict [(''type'', JStr ''text'')]))"

definition interactive_without_subtype :: json where
  "interactive_without_subtype = JDict [(''type'', JStr ''interactive'')]"

definition interactive_unknown_subtype :: json where
  "interactive_unknown_subtype =
     JDict [(''type'', JStr ''interactive''), (''interactive'', JDict [(''type'', JStr ''carousel_reply'')])]"

text \<open>
  A handler that appends its name to the state (the list of callbacks that have run) and
  then returns or raises as given.
\<close>

definition named_handler :: "string \<Rightarrow> py_exception option \<Rightarrow> (json, string list) handler" where
  "named_handler name outcome =
     \<lparr>callback_name = Some name, handle = (\<lambda>arg s. (outcome, s @ [name]))\<rparr>"

text \<open>
  The same for a callback without \<open>__name__\<close> (a \<open>functools.partial\<close> object); the tag
  only marks the state.
\<close>

definition nameless_handler :: "string \<Rightarrow> py_exception option \<Rightarrow> (json, string list) handler" where
  "nameless_handler tag outcome =
     \<lparr>callback_name = None, handle = (\<lambda>arg s. (outcome, s @ [tag]))\<rparr>"

text \<open>
  A client that accepts only its own notifications, with four message handlers (the second
  raises an error, the third stops the propagation) and two raw-update handlers (the first
  raises an error); its constructors hand the notification on as it is.
\<close>

definition example_client :: "(json, string list) client" where
  "example_client =
     \<lparr>filter_updates = True,
      phone_id = ''247666181773936'',
      fields_to_subclasses =
        [''messages'' \<mapsto> MessageHandler,
         ''message_template_status_update'' \<mapsto> OtherHandler ''TemplateStatusHandler''],
      handlers = (\<lambda>handler_type.
        if handler_type = MessageHandler then
          [named_handler ''greet'' None,
           named_handler ''broken'' (Some (OtherException ''RuntimeError'')),
           named_handler ''stopper'' (Some StopHandling),
           named_handler ''late'' None]
        else if handler_type = RawUpdateHandler then
          [named_handler ''raw_broken'' (Some KeyError),
           named_handler ''raw_log'' None]
        else []),
      update_constructor = (\<lambda>handler_type update. Inr update)\<rparr>"

text \<open>
  The same client with other handlers: the first message handler and the first raw-update
  handler are callbacks without \<open>__name__\<close> that raise an error, each followed by a
  handler that just returns.
\<close>

definition partial_client :: "(json, string list) client" where
  "partial_client =
     example_client\<lparr>handlers := (\<lambda>handler_type.
        if handler_type = MessageHandler then
          [nameless_handler ''partial'' (Some (OtherException ''RuntimeError'')),
           named_handler ''late'' None]
        else if handler_type = RawUpdateHandler then
          [nameless_handler ''raw_partial'' (Some (OtherException ''RuntimeError'')),
           named_handler ''raw_log'' None]
        else [])\<rparr>"

text \<open>
  A flow endpoint whose "encryption" keeps the plaintext: the decryptor hands the data on
  with the key and the vector when both are strings and raises otherwise; the encryptor
  joins the key, the vector and the keys of the reply mapping; \<open>from_dict\<close> reads the
  version and looks for an \<open>error_message\<close> in the data. The callback is left open; the
  state counts its calls.
\<close>

definition example_endpoint :: "(flow_request \<Rightarrow> nat \<Rightarrow> (py_exception + callback_return) \<times> nat) \<Rightarrow> (string, string, unit, nat) flow_endpoint" where
  "example_endpoint cb =
     \<lparr>private_key = ''PRIVATE KEY'',
      private_key_password = None,
      request_decryptor = (\<lambda>encrypted_flow_data encrypted_aes_key initial_vector key password.
        case (encrypted_aes_key, initial_vector) of
          (JStr k, JStr v) \<Rightarrow> Inr (encrypted_flow_data, k, v)
        | _ \<Rightarrow> Inl (OtherException ''InvalidTag'')),
      response_encryptor = (\<lambda>reply k v.
        k @ v @ (case reply of JDict kvs \<Rightarrow> concat (map fst kvs) | _ \<Rightarrow> [])),
      from_dict = (\<lambda>data raw_encrypted.
        and_then (getitem_str data ''version'') (\<lambda>v.
        and_then (getitem_str data ''data'') (\<lambda>d.
        and_then (py_in ''error_message'' d) (\<lambda>err.
        case v of JStr ver \<Rightarrow> Inr \<lparr>version = ver, has_error = err\<rparr> | _ \<Rightarrow> Inl TypeError)))),
      callback = cb,
      callback_dunder_name = Some ''on_flow_request'',
      acknowledge_errors = True,
      handle_health_check = True\<rparr>"

definition flow_payload :: "json \<Rightarrow> json" where
  "flow_payload request =
     JDict [(''encrypted_flow_data'', request),
            (''encrypted_aes_key'', JStr ''K''),
            (''initial_vector'', JStr ''V'')]"

definition data_exchange_request :: "(string \<times> json) list \<Rightarrow> json" where
  "data_exchange_request kvs =
     JDict [(''version'', JStr ''3.0''), (''action'', JStr ''data_exchange''), (''data'', JDict kvs)]"

definition ping_request :: json where
  "ping_request = JDict [(''version'', JStr ''3.0''), (''action'', JStr ''ping'')]"

section \<open>Auxiliary facts\<close>

text \<open>Subscripts raise only \<open>KeyError\<close>, \<open>IndexError\<close> or \<open>TypeError\<close>.\<close>

lemma getitem_str_raises: "getitem_str j k = Inl e \<Longrightarrow> e \<in> {KeyError, IndexError, TypeError}"
  by (cases j) (auto split: option.splits)

lemma getitem_0_raises: "getitem_0 j = Inl e \<Longrightarrow> e \<in> {KeyError, IndexError, TypeError}"
  by (induction j rule: getitem_0.induct) auto

lemma first_change_raises: "first_change update = Inl e \<Longrightarrow> e \<in> {KeyError, IndexError, TypeError}"
  unfolding first_change_def and_then_def
  by (auto split: sum.splits dest: getitem_str_raises getitem_0_raises)

lemma field_and_value_malformed: "first_change update = Inl e \<Longrightarrow> field_and_value update = Inl ValueError"
  using first_change_raises [of update e]
  by (auto simp: field_and_value_def and_then_def)

text \<open>
  The journal of a loop, entry by entry, in terms of what the handlers do when called.
\<close>

lemma state_after_0: "state_after hs arg s 0 = s"
  by (simp add: state_after_def)

lemma state_after_Cons_Suc:
  "state_after (h # hs) arg s (Suc i) = state_after hs arg (snd (handle h arg s)) i"
  by (simp add: state_after_def)

lemma run_handlers_length:
  "run_handlers hs arg s = (cs, s', r) \<Longrightarrow> length cs \<le> length hs"
  by (induction hs arbitrary: s cs) (auto split: prod.splits loop_action.splits)

lemma run_handlers_first:
  "run_handlers hs arg s = (cs, s', r) \<Longrightarrow> hs \<noteq> [] \<Longrightarrow> cs \<noteq> []"
  by (cases hs) (auto split: prod.splits loop_action.splits)

lemma run_handlers_none: "run_handlers hs arg s = ([], s', r) \<Longrightarrow> r = None"
  by (cases hs) (auto split: prod.splits loop_action.splits)

lemma run_handlers_nth:
  "run_handlers hs arg s = (cs, s', r) \<Longrightarrow> i < length cs \<Longrightarrow>
   cs ! i = Call (callback_name (hs ! i)) arg (fst (handle (hs ! i) arg (state_after hs arg s i)))"
proof (induction hs arbitrary: s cs i)
  case Nil
  then show ?case by simp
next
  case (Cons h hs)
  then show ?case
    by (cases i)
       (auto simp: state_after_0 state_after_Cons_Suc split: prod.splits loop_action.splits)
qed

lemma run_handlers_state:
  "run_handlers hs arg s = (cs, s', r) \<Longrightarrow> s' = state_after hs arg s (length cs)"
  by (induction hs arbitrary: s cs)
     (auto simp: state_after_0 state_after_Cons_Suc split: prod.splits loop_action.splits)

lemma run_handlers_goes_on:
  "run_handlers hs arg s = (cs, s', r) \<Longrightarrow> Suc i < length cs \<Longrightarrow>
   after_call (hs ! i) (call_outcome (cs ! i)) = Continue"
proof (induction hs arbitrary: s cs i)
  case Nil
  then show ?case by simp
next
  case (Cons h hs)
  then show ?case
    by (cases i) (auto split: prod.splits loop_action.splits)
qed

lemma run_handlers_tail:
  "run_handlers (h # hs) arg s = (c # rest, s', r) \<Longrightarrow> rest \<noteq> [] \<Longrightarrow>
   run_handlers hs arg (snd (handle h arg s)) = (rest, s', r)"
  by (auto split: prod.splits loop_action.splits)

lemma run_handlers_single:
  "run_handlers (h # hs) arg s = ([c], s', r) \<Longrightarrow>
   (case after_call h (call_outcome c) of
      Continue \<Rightarrow> hs = [] \<and> r = None
    | Break \<Rightarrow> r = None
    | Leave e \<Rightarrow> r = Some e)"
  by (auto split: prod.splits loop_action.splits dest: run_handlers_none run_handlers_first)

lemma run_handlers_last:
  "run_handlers hs arg s = (cs, s', r) \<Longrightarrow> Suc i = length cs \<Longrightarrow>
   (case after_call (hs ! i) (call_outcome (cs ! i)) of
      Continue \<Rightarrow> length cs = length hs \<and> r = None
    | Break \<Rightarrow> r = None
    | Leave e \<Rightarrow> r = Some e)"
proof (induction hs arbitrary: s cs i)
  case Nil
  then show ?case by simp
next
  case (Cons h hs)
  from Cons.prems(2) obtain c rest where cs: "cs = c # rest"
    by (cases cs) auto
  show ?case
  proof (cases i)
    case 0
    with Cons.prems(2) cs have rest: "rest = []" by simp
    with Cons.prems(1) cs have "run_handlers (h # hs) arg s = ([c], s', r)" by simp
    from run_handlers_single [OF this] show ?thesis
      by (simp add: 0 cs rest split: loop_action.splits)
  next
    case (Suc j)
    with Cons.prems(2) cs have j: "Suc j = length rest" by simp
    then have "rest \<noteq> []" by auto
    with Cons.prems(1) cs have "run_handlers hs arg (snd (handle h arg s)) = (rest, s', r)"
      by (simp add: run_handlers_tail)
    from Cons.IH [OF this j] show ?thesis
      by (simp add: Suc cs j [symmetric] split: loop_action.splits)
  qed
qed

text \<open>When the loop goes on after a call, by the call's outcome.\<close>

lemma after_call_Continue:
  "after_call h outcome = Continue \<longleftrightarrow>
     outcome = None \<or>
     (\<exists>e. outcome = Some e \<and> is_Exception e \<and> e \<noteq> StopHandling \<and> callback_name h \<noteq> None)"
  by (cases outcome) (auto split: option.splits)

lemma run_handlers_next:
  assumes run: "run_handlers hs arg s = (cs, s', r)" and i: "i < length cs"
  shows "Suc i < length cs \<longleftrightarrow>
           Suc i < length hs \<and>
           (call_outcome (cs ! i) = None \<or>
            (\<exists>e. call_outcome (cs ! i) = Some e \<and> is_Exception e \<and> e \<noteq> StopHandling \<and>
               callback_name (hs ! i) \<noteq> None))"
proof
  assume following: "Suc i < length cs"
  with run_handlers_length [OF run] have "Suc i < length hs" by simp
  moreover have "after_call (hs ! i) (call_outcome (cs ! i)) = Continue"
    using run following by (rule run_handlers_goes_on)
  ultimately show "Suc i < length hs \<and>
           (call_outcome (cs ! i) = None \<or>
            (\<exists>e. call_outcome (cs ! i) = Some e \<and> is_Exception e \<and> e \<noteq> StopHandling \<and>
               callback_name (hs ! i) \<noteq> None))"
    by (simp add: after_call_Continue)
next
  assume rhs: "Suc i < length hs \<and>
           (call_outcome (cs ! i) = None \<or>
            (\<exists>e. call_outcome (cs ! i) = Some e \<and> is_Exception e \<and> e \<noteq> StopHandling \<and>
               callback_name (hs ! i) \<noteq> None))"
  then have go: "after_call (hs ! i) (call_outcome (cs ! i)) = Continue"
    by (simp add: after_call_Continue)
  show "Suc i < length cs"
  proof (rule ccontr)
    assume "\<not> Suc i < length cs"
    with i have last: "Suc i = length cs" by simp
    from run_handlers_last [OF run last] go have "length cs = length hs" by simp
    with last rhs show False by simp
  qed
qed

lemma run_handlers_escaped:
  assumes run: "run_handlers hs arg s = (cs, s', r)"
  shows "r = (if cs = [] then None
              else case call_outcome (last cs) of
                     None \<Rightarrow> None
                   | Some e \<Rightarrow>
                       if \<not> is_Exception e then Some e
                       else if e \<noteq> StopHandling \<and> callback_name (hs ! (length cs - 1)) = None
                         then Some AttributeError
                       else None)"
proof (cases cs)
  case Nil
  with run show ?thesis by (simp add: run_handlers_none)
next
  case (Cons c rest)
  then have last: "Suc (length rest) = length cs" and nth: "last cs = cs ! length rest"
    and idx: "length cs - 1 = length rest" and ne: "cs \<noteq> []"
    by (simp_all add: last_conv_nth)
  let ?h = "hs ! length rest"
  let ?o = "call_outcome (cs ! length rest)"
  from run_handlers_last [OF run last]
  have "case after_call ?h ?o of
          Continue \<Rightarrow> length cs = length hs \<and> r = None | Break \<Rightarrow> r = None | Leave e \<Rightarrow> r = Some e" .
  then have "r = (case ?o of
                    None \<Rightarrow> None
                  | Some e \<Rightarrow>
                      if \<not> is_Exception e then Some e
                      else if e \<noteq> StopHandling \<and> callback_name ?h = None then Some AttributeError
                      else None)"
    by (cases ?o) (auto split: loop_action.splits option.splits if_splits)
  then show ?thesis
    unfolding idx nth using ne by simp
qed

text \<open>
  With callbacks that all have a \<open>__name__\<close> and raise nothing but instances of
  \<open>Exception\<close>, no exception leaves the loop and its journal is what the spec asks for.
\<close>

lemma after_call_named:
  assumes "callback_name h \<noteq> None" and "\<forall>e. outcome = Some e \<longrightarrow> is_Exception e"
  shows "after_call h outcome = (if outcome = Some StopHandling then Break else Continue)"
  using assms by (cases outcome) auto

lemma run_handlers_named:
  assumes run: "run_handlers hs arg s = (cs, s', r)"
      and named: "\<forall>h \<in> set hs. callback_name h \<noteq> None"
      and errors: "\<forall>h \<in> set hs. \<forall>a st e. fst (handle h a st) = Some e \<longrightarrow> is_Exception e"
  shows "r = None \<and> runs_isolated hs arg s cs"
proof -
  have len: "length cs \<le> length hs"
    using run by (rule run_handlers_length)
  have entry: "cs ! i = Call (callback_name (hs ! i)) arg (fst (handle (hs ! i) arg (state_after hs arg s i)))"
    if "i < length cs" for i
    using run that by (rule run_handlers_nth)
  have action: "after_call (hs ! i) (call_outcome (cs ! i)) =
                  (if call_outcome (cs ! i) = Some StopHandling then Break else Continue)"
    if "i < length cs" for i
  proof (rule after_call_named)
    from that len have "hs ! i \<in> set hs" by simp
    with named show "callback_name (hs ! i) \<noteq> None" by blast
    from \<open>hs ! i \<in> set hs\<close> errors entry [OF that]
    show "\<forall>e. call_outcome (cs ! i) = Some e \<longrightarrow> is_Exception e" by simp
  qed
  have stop_last: "Suc i = length cs" if "i < length cs" "call_outcome (cs ! i) = Some StopHandling" for i
  proof (rule ccontr)
    assume "Suc i \<noteq> length cs"
    with that(1) have "Suc i < length cs" by simp
    from run_handlers_goes_on [OF run this] action [OF that(1)] that(2) show False by simp
  qed
  have goes_on: "Suc i < length cs"
    if "i < length cs" "call_outcome (cs ! i) \<noteq> Some StopHandling" "Suc i < length hs" for i
  proof (rule ccontr)
    assume "\<not> Suc i < length cs"
    with that(1) have last: "Suc i = length cs" by simp
    from run_handlers_last [OF run last] action [OF that(1)] that(2) have "length cs = length hs"
      by simp
    with last that(3) show False by simp
  qed
  have "r = None"
  proof (cases cs)
    case Nil
    with run show ?thesis by (simp add: run_handlers_none)
  next
    case (Cons c rest)
    then have last: "Suc (length rest) = length cs" by simp
    then have "length rest < length cs" by simp
    from run_handlers_last [OF run last] action [OF this] show ?thesis
      by (simp split: if_splits)
  qed
  moreover have "hs \<noteq> [] \<longrightarrow> cs \<noteq> []"
    using run by (blast dest: run_handlers_first)
  ultimately show ?thesis
    unfolding runs_isolated_def using len entry stop_last goes_on by blast
qed

lemma run_category_constructed:
  "update_constructor self ht update = Inr u \<Longrightarrow>
   run_handlers (handlers self ht) (Constructed u) s = (cs, s1, None) \<Longrightarrow>
   run_category self (Some ht) update s = (cs, s1, None)"
  by (simp add: run_category_def)

lemma call_handlers_named_callbacks:
  assumes classified: "get_handler self update = Inr (Some ht)"
      and constructed: "update_constructor self ht update = Inr u"
      and named: "\<forall>h \<in> set (handlers self ht) \<union> set (handlers self RawUpdateHandler). callback_name h \<noteq> None"
      and errors: "\<forall>h \<in> set (handlers self ht) \<union> set (handlers self RawUpdateHandler).
                     \<forall>a st e. fst (handle h a st) = Some e \<longrightarrow> is_Exception e"
  shows "\<exists>cs s1 rs s2.
           call_handlers self update s = (cs @ rs, s2, None) \<and>
           runs_isolated (handlers self ht) (Constructed u) s cs \<and>
           s1 = state_after (handlers self ht) (Constructed u) s (length cs) \<and>
           runs_isolated (handlers self RawUpdateHandler) (Raw update) s1 rs \<and>
           s2 = state_after (handlers self RawUpdateHandler) (Raw update) s1 (length rs)"
proof -
  obtain cs s1 r1 where category: "run_handlers (handlers self ht) (Constructed u) s = (cs, s1, r1)"
    by (cases "run_handlers (handlers self ht) (Constructed u) s") auto
  obtain rs s2 r2 where raw: "run_handlers (handlers self RawUpdateHandler) (Raw update) s1 = (rs, s2, r2)"
    by (cases "run_handlers (handlers self RawUpdateHandler) (Raw update) s1") auto
  have "\<forall>h \<in> set (handlers self ht). callback_name h \<noteq> None"
    and "\<forall>h \<in> set (handlers self ht). \<forall>a st e. fst (handle h a st) = Some e \<longrightarrow> is_Exception e"
    using named errors by blast+
  with category have c: "r1 = None \<and> runs_isolated (handlers self ht) (Constructed u) s cs"
    by (rule run_handlers_named)
  have "\<forall>h \<in> set (handlers self RawUpdateHandler). callback_name h \<noteq> None"
    and "\<forall>h \<in> set (handlers self RawUpdateHandler). \<forall>a st e. fst (handle h a st) = Some e \<longrightarrow> is_Exception e"
    using named errors by blast+
  with raw have r: "r2 = None \<and> runs_isolated (handlers self RawUpdateHandler) (Raw update) s1 rs"
    by (rule run_handlers_named)
  have "run_category self (Some ht) update s = (cs, s1, None)"
    using constructed category c by (simp add: run_category_constructed)
  then have "call_handlers self update s = (cs @ rs, s2, None)"
    using classified raw r by (simp add: call_handlers_def)
  then show ?thesis
    using c r run_handlers_state [OF category] run_handlers_state [OF raw] by blast
qed

lemma getitem_str_py_in: "getitem_str j key = Inr v \<Longrightarrow> py_in key j = Inr True"
  by (cases j) (auto split: option.splits)

lemma message_type_handler_interactive:
  "message_type_handler (JStr MessageType_INTERACTIVE) = Inr MessageHandler"
  by (simp add: message_type_handler_def and_then_def MESSAGE_TYPES_def MessageType_INTERACTIVE_def
      MessageType_BUTTON_def MessageType_REQUEST_WELCOME_def)

lemma dict_get_unknown_interactive:
  "hashable t \<Longrightarrow> t \<notin> {JStr ''button_reply'', JStr ''list_reply'', JStr ''nfm_reply''} \<Longrightarrow>
   dict_get INTERACTIVE_TYPES t = Inr None"
  by (cases t) (simp_all add: INTERACTIVE_TYPES_def)

text \<open>Unfolding sets for evaluating the classifier and the handlers on the example inputs.\<close>

lemmas classifier_defs =
  get_handler_def field_and_value_def first_change_def and_then_def accepts_update_def
  message_handler_type_def message_type_handler_def MESSAGE_TYPES_def INTERACTIVE_TYPES_def
  MessageType_INTERACTIVE_def MessageType_BUTTON_def MessageType_REQUEST_WELCOME_def

lemmas example_defs =
  notification_def message_value_def text_message_def interactive_without_subtype_def
  interactive_unknown_subtype_def named_handler_def nameless_handler_def example_client_def
  partial_client_def

lemmas flow_example_defs =
  example_endpoint_def flow_payload_def data_exchange_request_def ping_request_def
  decrypt_request_def is_health_check_def and_then_def

section \<open>Theorems\<close>

text \<open>
  C1 (as amended). For every raw notification from which the classifier cannot extract the
  first entry's first change (entries or changes absent or not list-shaped), the classifier
  raises \<open>ValueError\<close> and dispatch returns at once: it runs no category handler and no
  raw-update handler either, leaves the state as it was and raises nothing.
\<close>

theorem call_handlers_malformed:
  assumes "first_change update = Inl e"
  shows "get_handler self update = Inl ValueError \<and> call_handlers self update s = ([], s, None)"
  using field_and_value_malformed [OF assms]
  by (simp add: call_handlers_def get_handler_def and_then_def)

theorem call_handlers_malformed_witness:
  "first_change (JDict [(''entry'', JList [])]) = Inl IndexError \<and>
   get_handler example_client (JDict [(''entry'', JList [])]) = Inl ValueError \<and>
   call_handlers example_client (JDict [(''entry'', JList [])]) [] = ([], [], None)"
proof -
  have malformed: "first_change (JDict [(''entry'', JList [])]) = Inl IndexError"
    by (simp add: first_change_def and_then_def)
  show ?thesis
    using malformed call_handlers_malformed [OF malformed, of example_client "[]"] by simp
qed

text \<open>
  C1 as stated fails: it has the raw-update handlers still run on a notification without
  entries. On the empty mapping the first change cannot be extracted, two raw-update
  handlers are registered, and the journal of calls is empty.
\<close>

theorem call_handlers_malformed_counterexample:
  "first_change (JDict []) = Inl KeyError \<and>
   map callback_name (handlers example_client RawUpdateHandler) = [Some ''raw_broken'', Some ''raw_log''] \<and>
   call_handlers example_client (JDict []) [] = ([], [], None)"
  by (simp add: call_handlers_def classifier_defs example_defs)

text \<open>
  C2. The claim has every error other than the stop-propagation signal caught, so that the
  handlers registered after the one that raised it still run. The code does this only for a
  callback that has a \<open>__name__\<close> (\<open>call_handlers_named_callbacks\<close> above). Here the first
  message handler and the first raw-update handler are callbacks without \<open>__name__\<close> that
  raise \<open>RuntimeError\<close>: the log line of the \<open>except\<close> clause raises \<open>AttributeError\<close>, which
  ends the category's block, so that the message handler \<open>late\<close> registered after it is
  never called, and which in the raw-update loop leaves \<open>_call_handlers\<close>, so that the
  raw-update handler \<open>raw_log\<close> is never called either.
\<close>

theorem call_handlers_nameless_callback:
  "get_handler partial_client text_message = Inr (Some MessageHandler) \<and>
   update_constructor partial_client MessageHandler text_message = Inr text_message \<and>
   map callback_name (handlers partial_client MessageHandler) = [None, Some ''late''] \<and>
   map callback_name (handlers partial_client RawUpdateHandler) = [None, Some ''raw_log''] \<and>
   call_handlers partial_client text_message [] =
     ([Call None (Constructed text_message) (Some (OtherException ''RuntimeError'')),
       Call None (Raw text_message) (Some (OtherException ''RuntimeError''))],
      [''partial'', ''raw_partial''], Some AttributeError)"
proof -
  have classified: "get_handler partial_client text_message = Inr (Some MessageHandler)"
    by (simp add: classifier_defs example_defs)
  have category:
    "run_category partial_client (Some MessageHandler) text_message [] =
       ([Call None (Constructed text_message) (Some (OtherException ''RuntimeError''))], [''partial''], None)"
    by (simp add: run_category_def partial_client_def example_client_def named_handler_def
        nameless_handler_def)
  have raw:
    "run_handlers (handlers partial_client RawUpdateHandler) (Raw text_message) [''partial''] =
       ([Call None (Raw text_message) (Some (OtherException ''RuntimeError''))],
        [''partial'', ''raw_partial''], Some AttributeError)"
    by (simp add: partial_client_def example_client_def named_handler_def nameless_handler_def)
  have "call_handlers partial_client text_message [] =
     ([Call None (Constructed text_message) (Some (OtherException ''RuntimeError'')),
       Call None (Raw text_message) (Some (OtherException ''RuntimeError''))],
      [''partial'', ''raw_partial''], Some AttributeError)"
    using classified category raw by (simp add: call_handlers_def)
  then show ?thesis
    using classified
    by (simp add: partial_client_def example_client_def named_handler_def nameless_handler_def)
qed

text \<open>
  C3. For every encrypted-exchange request whose decryption step (reading the three
  fields of the payload and calling the decryptor) raises any error, the handler returns the
  fixed plaintext body \<open>Decryption failed\<close> with status code 421, and the application
  callback is never called (no call in the journal, the state unchanged).
\<close>

theorem flow_decryption_failed:
  assumes "decrypt_request ep payload = Inl e" and "is_Exception e"
  shows "flow_request_handler ep payload s = (Inr (''Decryption failed'', 421), [], s)"
  using assms by (simp add: flow_request_handler_def FlowRequestCannotBeDecrypted_status_code_def)

theorem flow_decryption_failed_witness:
  "decrypt_request (example_endpoint (\<lambda>r n. (Inr (ReturnedDict []), Suc n)))
     (JDict [(''encrypted_flow_data'', JStr ''garbled''), (''encrypted_aes_key'', JNull), (''initial_vector'', JStr ''V'')])
     = Inl (OtherException ''InvalidTag'') \<and>
   flow_request_handler (example_endpoint (\<lambda>r n. (Inr (ReturnedDict []), Suc n)))
     (JDict [(''encrypted_flow_data'', JStr ''garbled''), (''encrypted_aes_key'', JNull), (''initial_vector'', JStr ''V'')]) 0
     = (Inr (''Decryption failed'', 421), [], 0)"
proof -
  have raised:
    "decrypt_request (example_endpoint (\<lambda>r n. (Inr (ReturnedDict []), Suc n)))
       (JDict [(''encrypted_flow_data'', JStr ''garbled''), (''encrypted_aes_key'', JNull), (''initial_vector'', JStr ''V'')])
       = Inl (OtherException ''InvalidTag'')"
    by (simp add: flow_example_defs)
  have error: "is_Exception (OtherException ''InvalidTag'')"
    by simp
  show ?thesis
    using raised flow_decryption_failed [OF raised error, of 0] by simp
qed

text \<open>
  C4 (as amended). For every encrypted-exchange request that decrypts and parses
  successfully (and is not answered as a health check), when acknowledge-errors mode is
  enabled and the parsed request reports an existing error condition, the handler returns
  the encrypted mapping \<open>{version, data: {acknowledged: true}}\<close> with status 200 whatever
  value the application callback returned, provided that value is not a flow-response-error
  (the handler raises a flow-response-error that the callback returns).
\<close>

theorem flow_acknowledge_errors:
  assumes "decrypt_request ep payload = Inr (decrypted_request, aes_key, iv)"
      and "is_health_check ep decrypted_request = Inr False"
      and "from_dict ep decrypted_request payload = Inr request"
      and "acknowledge_errors ep" and "has_error request"
      and "callback ep request s = (Inr response, s')"
      and "\<forall>err. response \<noteq> ReturnedError err"
  shows "flow_request_handler ep payload s =
           (Inr (response_encryptor ep
                   (JDict [(''version'', JStr (version request)),
                           (''data'', JDict [(''acknowledged'', JBool True)])])
                   aes_key iv, 200), [request], s')"
  using assms by (cases response) (simp_all add: flow_request_handler_def encrypted_reply_def)

theorem flow_acknowledge_errors_witness:
  "flow_request_handler (example_endpoint (\<lambda>r n. (Inr (ReturnedOther ''NoneType''), Suc n)))
     (flow_payload (data_exchange_request [(''error_message'', JStr ''timeout'')])) 0
     = (Inr (''KVversiondata'', 200), [\<lparr>version = ''3.0'', has_error = True\<rparr>], 1)"
proof -
  let ?ep = "example_endpoint (\<lambda>r n. (Inr (ReturnedOther ''NoneType''), Suc n))"
  let ?request = "data_exchange_request [(''error_message'', JStr ''timeout'')]"
  have decrypted: "decrypt_request ?ep (flow_payload ?request) = Inr (?request, ''K'', ''V'')"
    by (simp add: flow_example_defs)
  have no_ping: "is_health_check ?ep ?request = Inr False"
    by (simp add: flow_example_defs)
  have parsed: "from_dict ?ep ?request (flow_payload ?request) = Inr \<lparr>version = ''3.0'', has_error = True\<rparr>"
    by (simp add: flow_example_defs)
  have mode: "acknowledge_errors ?ep"
    by (simp add: example_endpoint_def)
  have reported: "has_error \<lparr>version = ''3.0'', has_error = True\<rparr>"
    by simp
  have returned: "callback ?ep \<lparr>version = ''3.0'', has_error = True\<rparr> 0 = (Inr (ReturnedOther ''NoneType''), Suc 0)"
    by (simp add: example_endpoint_def)
  have no_error: "\<forall>err. ReturnedOther ''NoneType'' \<noteq> ReturnedError err"
    by simp
  show ?thesis
    using flow_acknowledge_errors [OF decrypted no_ping parsed mode reported returned no_error]
    by (simp add: example_endpoint_def)
qed

text \<open>
  C4 as stated fails: with acknowledge-errors mode on and a request that reports an error,
  a callback that returns a token-no-longer-valid error gets the encrypted \<open>{error_msg}\<close>
  body with status 427, not the acknowledgement with status 200.
\<close>

theorem flow_acknowledge_errors_counterexample:
  "acknowledge_errors (example_endpoint (\<lambda>r n. (Inr (ReturnedError (FlowTokenNoLongerValid ''expired'' 427)), Suc n))) \<and>
   from_dict (example_endpoint (\<lambda>r n. (Inr (ReturnedError (FlowTokenNoLongerValid ''expired'' 427)), Suc n)))
     (data_exchange_request [(''error_message'', JStr ''timeout'')])
     (flow_payload (data_exchange_request [(''error_message'', JStr ''timeout'')]))
     = Inr \<lparr>version = ''3.0'', has_error = True\<rparr> \<and>
   flow_request_handler
     (example_endpoint (\<lambda>r n. (Inr (ReturnedError (FlowTokenNoLongerValid ''expired'' 427)), Suc n)))
     (flow_payload (data_exchange_request [(''error_message'', JStr ''timeout'')])) 0
     = (Inr (''KVerror_msg'', 427), [\<lparr>version = ''3.0'', has_error = True\<rparr>], 1)"
  by (simp add: flow_request_handler_def flow_example_defs)

text \<open>
  C5. For every encrypted-exchange request that decrypts successfully to a request with
  action \<open>ping\<close> and a version, when health-check handling is enabled, the handler returns
  the encrypted mapping \<open>{version, data: {status: "active"}}\<close> with status 200 and never
  calls the application callback (no call in the journal, the state unchanged).
\<close>

theorem flow_health_check:
  assumes "decrypt_request ep payload = Inr (decrypted_request, aes_key, iv)"
      and "handle_health_check ep"
      and "getitem_str decrypted_request ''action'' = Inr (JStr ''ping'')"
      and "getitem_str decrypted_request ''version'' = Inr v"
  shows "flow_request_handler ep payload s =
           (Inr (response_encryptor ep
                   (JDict [(''version'', v), (''data'', JDict [(''status'', JStr ''active'')])])
                   aes_key iv, 200), [], s)"
  using assms by (simp add: flow_request_handler_def is_health_check_def and_then_def)

theorem flow_health_check_witness:
  "flow_request_handler (example_endpoint (\<lambda>r n. (Inr (ReturnedDict []), Suc n))) (flow_payload ping_request) 0
     = (Inr (''KVversiondata'', 200), [], 0)"
proof -
  have decrypted:
    "decrypt_request (example_endpoint (\<lambda>r n. (Inr (ReturnedDict []), Suc n))) (flow_payload ping_request)
       = Inr (ping_request, ''K'', ''V'')"
    by (simp add: flow_example_defs)
  have enabled: "handle_health_check (example_endpoint (\<lambda>r n. (Inr (ReturnedDict []), Suc n)))"
    by (simp add: example_endpoint_def)
  have ping: "getitem_str ping_request ''action'' = Inr (JStr ''ping'')"
    by (simp add: ping_request_def)
  have v: "getitem_str ping_request ''version'' = Inr (JStr ''3.0'')"
    by (simp add: ping_request_def)
  show ?thesis
    using flow_health_check [OF decrypted enabled ping v, of 0]
    by (simp add: example_endpoint_def)
qed

text \<open>
  C6 (as amended). For every notification with field \<open>messages\<close> that the recipient filter
  accepts (filtering is off, or the value's \<open>metadata.phone_number_id\<close> is the client's
  phone id) and whose first message has type \<open>interactive\<close>: if the sub-type key is missing
  (the message has no \<open>interactive\<close> key, or that mapping has no \<open>type\<close> key), or if the
  sub-type is present, hashable and not one of \<open>button_reply\<close>, \<open>list_reply\<close>,
  \<open>nfm_reply\<close>, the classifier yields the generic message category; it neither fails nor
  yields none.
\<close>

theorem get_handler_interactive_fallback:
  assumes shape: "field_and_value update = Inr (JStr ''messages'', val)"
      and accepted: "\<not> filter_updates self \<or>
                     (\<exists>metadata. getitem_str val ''metadata'' = Inr metadata \<and>
                        getitem_str metadata ''phone_number_id'' = Inr (JStr (phone_id self)))"
      and messages: "getitem_str val ''messages'' = Inr messages"
      and first: "getitem_0 messages = Inr msg"
      and interactive: "getitem_str msg ''type'' = Inr (JStr ''interactive'')"
      and subtype:
        "getitem_str msg ''interactive'' = Inl KeyError \<or>
         (\<exists>inter. getitem_str msg ''interactive'' = Inr inter \<and>
            (getitem_str inter ''type'' = Inl KeyError \<or>
             (\<exists>t. getitem_str inter ''type'' = Inr t \<and> hashable t \<and>
                  t \<notin> {JStr ''button_reply'', JStr ''list_reply'', JStr ''nfm_reply''})))"
  shows "get_handler self update = Inr (Some MessageHandler)"
proof -
  have accepts: "accepts_update self val = Inr True"
    using accepted by (auto simp: accepts_update_def and_then_def)
  have contains: "py_in ''messages'' val = Inr True"
    using messages by (rule getitem_str_py_in)
  have "message_handler_type val = Inr MessageHandler"
    using messages first interactive subtype
      message_type_handler_interactive dict_get_unknown_interactive
    by (auto simp: message_handler_type_def and_then_def MessageType_INTERACTIVE_def)
  then show ?thesis
    using shape accepts contains by (simp add: get_handler_def and_then_def)
qed

theorem get_handler_interactive_fallback_witness:
  "get_handler example_client
     (notification (JStr ''messages'') (message_value ''247666181773936'' interactive_without_subtype))
     = Inr (Some MessageHandler) \<and>
   get_handler example_client
     (notification (JStr ''messages'') (message_value ''247666181773936'' interactive_unknown_subtype))
     = Inr (Some MessageHandler)"
proof -
  have accepted:
    "\<not> filter_updates example_client \<or>
     (\<exists>metadata. getitem_str (message_value ''247666181773936'' msg) ''metadata'' = Inr metadata \<and>
        getitem_str metadata ''phone_number_id'' = Inr (JStr (phone_id example_client)))" for msg
    by (simp add: message_value_def example_client_def)
  have shape:
    "field_and_value (notification (JStr ''messages'') (message_value ''247666181773936'' msg))
       = Inr (JStr ''messages'', message_value ''247666181773936'' msg)" for msg
    by (simp add: field_and_value_def first_change_def and_then_def notification_def)
  have messages: "getitem_str (message_value ''247666181773936'' msg) ''messages'' = Inr (JList [msg])" for msg
    by (simp add: message_value_def)
  have first: "getitem_0 (JList [msg]) = Inr msg" for msg
    by simp
  have missing:
    "getitem_str interactive_without_subtype ''type'' = Inr (JStr ''interactive'')"
    "getitem_str interactive_without_subtype ''interactive'' = Inl KeyError \<or>
     (\<exists>inter. getitem_str interactive_without_subtype ''interactive'' = Inr inter \<and>
        (getitem_str inter ''type'' = Inl KeyError \<or>
         (\<exists>t. getitem_str inter ''type'' = Inr t \<and> hashable t \<and>
              t \<notin> {JStr ''button_reply'', JStr ''list_reply'', JStr ''nfm_reply''})))"
    by (simp_all add: interactive_without_subtype_def)
  have unknown:
    "getitem_str interactive_unknown_subtype ''type'' = Inr (JStr ''interactive'')"
    "getitem_str interactive_unknown_subtype ''interactive'' = Inl KeyError \<or>
     (\<exists>inter. getitem_str interactive_unknown_subtype ''interactive'' = Inr inter \<and>
        (getitem_str inter ''type'' = Inl KeyError \<or>
         (\<exists>t. getitem_str inter ''type'' = Inr t \<and> hashable t \<and>
              t \<notin> {JStr ''button_reply'', JStr ''list_reply'', JStr ''nfm_reply''})))"
    by (simp_all add: interactive_unknown_subtype_def)
  show ?thesis
    using get_handler_interactive_fallback [OF shape accepted messages first missing]
          get_handler_interactive_fallback [OF shape accepted messages first unknown]
    by simp
qed

text \<open>
  C6 as stated fails: a client that accepts only its own notifications classifies an
  interactive message without sub-type that is addressed to another phone id as none.
\<close>

theorem get_handler_interactive_filtered_counterexample:
  "field_and_value (notification (JStr ''messages'') (message_value ''15550001111'' interactive_without_subtype))
     = Inr (JStr ''messages'', message_value ''15550001111'' interactive_without_subtype) \<and>
   getitem_str interactive_without_subtype ''type'' = Inr (JStr ''interactive'') \<and>
   getitem_str interactive_without_subtype ''interactive'' = Inl KeyError \<and>
   get_handler example_client
     (notification (JStr ''messages'') (message_value ''15550001111'' interactive_without_subtype))
     = Inr None"
  by (simp add: classifier_defs example_defs)

text \<open>
  C7. For every well-shaped notification (field and value of the first change can be
  read) whose field is hashable, is not \<open>messages\<close> and is not in the field-to-category
  table, the classifier yields none without raising, and dispatch runs only the raw-update
  handlers: the journal of \<open>_call_handlers\<close> holds calls of raw-update handlers only, the
  \<open>i\<close>-th entry being the call of the \<open>i\<close>-th registered raw-update handler with the raw
  notification, in the state the calls before it left and with the outcome that call had;
  the state at the end is the one these calls leave. The first raw-update handler is called
  whenever there is one, and after a call the next registered handler is called exactly
  when there is one and the call returned or raised an error other than the
  stop-propagation signal whose log line could be written (the callback has a
  \<open>__name__\<close>). \<open>_call_handlers\<close> raises only what the last call lets through: an
  exception that is not an \<open>Exception\<close>, or the \<open>AttributeError\<close> of the log line.
\<close>

theorem call_handlers_unknown_field:
  assumes shape: "field_and_value update = Inr (field, val)"
      and hashable: "hashable field"
      and not_messages: "field \<noteq> JStr ''messages''"
      and unknown: "\<forall>name. field = JStr name \<longrightarrow> fields_to_subclasses self name = None"
      and result: "call_handlers self update s = (js, s', r)"
  shows "get_handler self update = Inr None \<and>
         length js \<le> length (handlers self RawUpdateHandler) \<and>
         (handlers self RawUpdateHandler \<noteq> [] \<longrightarrow> js \<noteq> []) \<and>
         (\<forall>i<length js.
            js ! i = Call (callback_name (handlers self RawUpdateHandler ! i)) (Raw update)
                       (fst (handle (handlers self RawUpdateHandler ! i) (Raw update)
                              (state_after (handlers self RawUpdateHandler) (Raw update) s i)))) \<and>
         s' = state_after (handlers self RawUpdateHandler) (Raw update) s (length js) \<and>
         (\<forall>i<length js.
            Suc i < length js \<longleftrightarrow>
              Suc i < length (handlers self RawUpdateHandler) \<and>
              (call_outcome (js ! i) = None \<or>
               (\<exists>e. call_outcome (js ! i) = Some e \<and> is_Exception e \<and> e \<noteq> StopHandling \<and>
                  callback_name (handlers self RawUpdateHandler ! i) \<noteq> None))) \<and>
         r = (if js = [] then None
              else case call_outcome (last js) of
                     None \<Rightarrow> None
                   | Some e \<Rightarrow>
                       if \<not> is_Exception e then Some e
                       else if e \<noteq> StopHandling \<and>
                               callback_name (handlers self RawUpdateHandler ! (length js - 1)) = None
                         then Some AttributeError
                       else None)"
proof -
  have "dict_get (fields_to_subclasses self) field = Inr None"
    using hashable unknown by (cases field) simp_all
  then have none: "get_handler self update = Inr None"
    using shape not_messages by (simp add: get_handler_def and_then_def)
  then have raw: "run_handlers (handlers self RawUpdateHandler) (Raw update) s = (js, s', r)"
    using result by (simp add: call_handlers_def run_category_def split: prod.splits)
  have first: "handlers self RawUpdateHandler \<noteq> [] \<longrightarrow> js \<noteq> []"
    using raw by (blast dest: run_handlers_first)
  have entries:
    "\<forall>i<length js.
       js ! i = Call (callback_name (handlers self RawUpdateHandler ! i)) (Raw update)
                  (fst (handle (handlers self RawUpdateHandler ! i) (Raw update)
                         (state_after (handlers self RawUpdateHandler) (Raw update) s i)))"
    using run_handlers_nth [OF raw] by blast
  have following:
    "\<forall>i<length js.
       Suc i < length js \<longleftrightarrow>
         Suc i < length (handlers self RawUpdateHandler) \<and>
         (call_outcome (js ! i) = None \<or>
          (\<exists>e. call_outcome (js ! i) = Some e \<and> is_Exception e \<and> e \<noteq> StopHandling \<and>
             callback_name (handlers self RawUpdateHandler ! i) \<noteq> None))"
    using run_handlers_next [OF raw] by blast
  show ?thesis
    using none run_handlers_length [OF raw] first entries run_handlers_state [OF raw] following
      run_handlers_escaped [OF raw]
    by (intro conjI)
qed

theorem call_handlers_unknown_field_witness:
  "get_handler example_client (notification (JStr ''security'') JNull) = Inr None \<and>
   call_handlers example_client (notification (JStr ''security'') JNull) [] =
     ([Call (Some ''raw_broken'') (Raw (notification (JStr ''security'') JNull)) (Some KeyError),
       Call (Some ''raw_log'') (Raw (notification (JStr ''security'') JNull)) None],
      [''raw_broken'', ''raw_log''], None) \<and>
   get_handler partial_client (notification (JStr ''security'') JNull) = Inr None \<and>
   call_handlers partial_client (notification (JStr ''security'') JNull) [] =
     ([Call None (Raw (notification (JStr ''security'') JNull)) (Some (OtherException ''RuntimeError''))],
      [''raw_partial''], Some AttributeError)"
proof -
  let ?n = "notification (JStr ''security'') JNull"
  have shape: "field_and_value ?n = Inr (JStr ''security'', JNull)"
    by (simp add: field_and_value_def first_change_def and_then_def notification_def)
  have hashable: "hashable (JStr ''security'')"
    by simp
  have not_messages: "JStr ''security'' \<noteq> JStr ''messages''"
    by simp
  have unknown: "\<forall>name. JStr ''security'' = JStr name \<longrightarrow> fields_to_subclasses example_client name = None"
    by (simp add: example_client_def)
  have unknown': "\<forall>name. JStr ''security'' = JStr name \<longrightarrow> fields_to_subclasses partial_client name = None"
    by (simp add: partial_client_def example_client_def)
  have none: "get_handler c ?n = Inr None"
    if "\<forall>name. JStr ''security'' = JStr name \<longrightarrow> fields_to_subclasses c name = None"
    for c :: "(json, string list) client"
    using that shape by (simp add: get_handler_def and_then_def)
  have result:
    "call_handlers example_client ?n [] =
       ([Call (Some ''raw_broken'') (Raw ?n) (Some KeyError), Call (Some ''raw_log'') (Raw ?n) None],
        [''raw_broken'', ''raw_log''], None)"
    using none [OF unknown]
    by (simp add: call_handlers_def run_category_def example_client_def named_handler_def)
  have result':
    "call_handlers partial_client ?n [] =
       ([Call None (Raw ?n) (Some (OtherException ''RuntimeError''))], [''raw_partial''], Some AttributeError)"
    using none [OF unknown']
    by (simp add: call_handlers_def run_category_def partial_client_def example_client_def
        named_handler_def nameless_handler_def)
  show ?thesis
    using call_handlers_unknown_field [OF shape hashable not_messages unknown result, THEN conjunct1]
          call_handlers_unknown_field [OF shape hashable not_messages unknown' result', THEN conjunct1]
          result result'
    by simp
qed

text \<open>
  C8. For every encrypted-exchange request whose application callback (reached after a
  successful decryption and parse, the request not being answered as a health check) raises
  the flow-token-no-longer-valid error carrying a message and a status code, the handler
  returns the encrypted mapping \<open>{error_msg: message}\<close> with that status code.
\<close>

theorem flow_token_no_longer_valid:
  assumes "decrypt_request ep payload = Inr (decrypted_request, aes_key, iv)"
      and "is_health_check ep decrypted_request = Inr False"
      and "from_dict ep decrypted_request payload = Inr request"
      and "callback ep request s = (Inl (FlowResponseError (FlowTokenNoLongerValid msg code)), s')"
  shows "flow_request_handler ep payload s =
           (Inr (response_encryptor ep (JDict [(''error_msg'', JStr msg)]) aes_key iv, code), [request], s')"
  using assms by (simp add: flow_request_handler_def)

theorem flow_token_no_longer_valid_witness:
  "flow_request_handler
     (example_endpoint (\<lambda>r n. (Inl (FlowResponseError (FlowTokenNoLongerValid ''expired'' 427)), Suc n)))
     (flow_payload (data_exchange_request [])) 0
     = (Inr (''KVerror_msg'', 427), [\<lparr>version = ''3.0'', has_error = False\<rparr>], 1)"
proof -
  let ?ep = "example_endpoint (\<lambda>r n. (Inl (FlowResponseError (FlowTokenNoLongerValid ''expired'' 427)), Suc n))"
  have decrypted:
    "decrypt_request ?ep (flow_payload (data_exchange_request [])) = Inr (data_exchange_request [], ''K'', ''V'')"
    by (simp add: flow_example_defs)
  have no_ping: "is_health_check ?ep (data_exchange_request []) = Inr False"
    by (simp add: flow_example_defs)
  have parsed:
    "from_dict ?ep (data_exchange_request []) (flow_payload (data_exchange_request []))
       = Inr \<lparr>version = ''3.0'', has_error = False\<rparr>"
    by (simp add: flow_example_defs)
  have raised:
    "callback ?ep \<lparr>version = ''3.0'', has_error = False\<rparr> 0
       = (Inl (FlowResponseError (FlowTokenNoLongerValid ''expired'' 427)), Suc 0)"
    by (simp add: example_endpoint_def)
  show ?thesis
    using flow_token_no_longer_valid [OF decrypted no_ping parsed raised]
    by (simp add: example_endpoint_def)
qed

text \<open>
  C9. For every verification challenge call: if the received token equals the configured
  verify-token, the handler returns the received challenge string with status 200; otherwise
  it returns the fixed error body with status 403.
\<close>

theorem challenge_handler_token_check:
  "(vt = Some verify_token \<longrightarrow> challenge_handler verify_token vt ch = (ch, 200)) \<and>
   (vt \<noteq> Some verify_token \<longrightarrow>
      challenge_handler verify_token vt ch = (Some ''Error, invalid verification token'', 403))"
  by (simp add: challenge_handler_def)

theorem challenge_handler_token_check_witness:
  "challenge_handler ''038726584673'' (Some ''038726584673'') (Some ''abc123'') = (Some ''abc123'', 200) \<and>
   challenge_handler ''038726584673'' (Some ''wrong'') (Some ''abc123'')
     = (Some ''Error, invalid verification token'', 403) \<and>
   challenge_handler ''038726584673'' None (Some ''abc123'')
     = (Some ''Error, invalid verification token'', 403)"
  using challenge_handler_token_check [of "Some ''038726584673''" "''038726584673''" "Some ''abc123''"]
        challenge_handler_token_check [of "Some ''wrong''" "''038726584673''" "Some ''abc123''"]
        challenge_handler_token_check [of None "''038726584673''" "Some ''abc123''"]
  by simp

text \<open>
  C10. For every encrypted-exchange request whose application callback returns (rather
  than raises) a flow-response-error value, the handler answers exactly as with a callback
  that raises that error: a returned token-no-longer-valid error yields the encrypted
  \<open>{error_msg}\<close> body with its status code, any other returned flow-response-error yields
  its class name as a plaintext body with its status code.
\<close>

theorem flow_returned_error_as_raised:
  assumes "decrypt_request ep payload = Inr (decrypted_request, aes_key, iv)"
      and "is_health_check ep decrypted_request = Inr False"
      and "from_dict ep decrypted_request payload = Inr request"
      and "callback ep request s = (Inr (ReturnedError err), s')"
  shows "flow_request_handler ep payload s =
           flow_request_handler (ep\<lparr>callback := (\<lambda>r st. (Inl (FlowResponseError err), s'))\<rparr>) payload s \<and>
         flow_request_handler ep payload s =
           (case err of
              FlowTokenNoLongerValid msg code \<Rightarrow>
                Inr (response_encryptor ep (JDict [(''error_msg'', JStr msg)]) aes_key iv, code)
            | OtherFlowResponseError name code \<Rightarrow> Inr (name, code),
            [request], s')"
  using assms
  by (cases err) (simp_all add: flow_request_handler_def decrypt_request_def is_health_check_def)

theorem flow_returned_error_as_raised_witness:
  "flow_request_handler
     (example_endpoint (\<lambda>r n. (Inr (ReturnedError (FlowTokenNoLongerValid ''expired'' 427)), Suc n)))
     (flow_payload (data_exchange_request [])) 0
     = (Inr (''KVerror_msg'', 427), [\<lparr>version = ''3.0'', has_error = False\<rparr>], 1) \<and>
   flow_request_handler
     (example_endpoint (\<lambda>r n. (Inr (ReturnedError (OtherFlowResponseError ''FlowRequestSignatureAuthenticationFailed'' 432)), Suc n)))
     (flow_payload (data_exchange_request [])) 0
     = (Inr (''FlowRequestSignatureAuthenticationFailed'', 432), [\<lparr>version = ''3.0'', has_error = False\<rparr>], 1)"
proof -
  let ?request = "data_exchange_request []"
  have decrypted: "decrypt_request (example_endpoint cb) (flow_payload ?request) = Inr (?request, ''K'', ''V'')" for cb
    by (simp add: flow_example_defs)
  have no_ping: "is_health_check (example_endpoint cb) ?request = Inr False" for cb
    by (simp add: flow_example_defs)
  have parsed:
    "from_dict (example_endpoint cb) ?request (flow_payload ?request) = Inr \<lparr>version = ''3.0'', has_error = False\<rparr>" for cb
    by (simp add: flow_example_defs)
  have returned:
    "callback (example_endpoint (\<lambda>r n. (Inr (ReturnedError err), Suc n))) \<lparr>version = ''3.0'', has_error = False\<rparr> 0
       = (Inr (ReturnedError err), Suc 0)" for err
    by (simp add: example_endpoint_def)
  show ?thesis
    using flow_returned_error_as_raised [OF decrypted no_ping parsed returned,
            of "FlowTokenNoLongerValid ''expired'' 427", THEN conjunct2]
          flow_returned_error_as_raised [OF decrypted no_ping parsed returned,
            of "OtherFlowResponseError ''FlowRequestSignatureAuthenticationFailed'' 432", THEN conjunct2]
    by (simp add: example_endpoint_def)
qed

end
